theory Spec2Isabelle
  imports Main "HOL-Library.Sublist"
begin

section \<open>Python values and exceptions\<close>

text \<open>
  The adapter in \<^verbatim>\<open>archipy/adapters/keycloak/adapters.py\<close> works on what the identity
  provider's client library returns: decoded token claims and permission lists, both
  parsed JSON. The code is dynamically typed, so the values are modelled as they are at
  run time, and every operation that can raise returns a sum with the exception on the left.
\<close>

datatype exn =
    KeycloakError string
  | ValueError string
  | AttributeError string
  | TypeError string
  | OtherError string

fun str_exn :: "exn \<Rightarrow> string" where
  "str_exn (KeycloakError m) = m"
| "str_exn (ValueError m) = m"
| "str_exn (AttributeError m) = m"
| "str_exn (TypeError m) = m"
| "str_exn (OtherError m) = m"

datatype json =
    JNull
  | JBool bool
  | JNum int
  | JStr string
  | JList "json list"
  | JObj "(string \<times> json) list"

text \<open>Sequencing of two steps, the second skipped when the first raises.\<close>

fun try_bind :: "exn + 'a \<Rightarrow> ('a \<Rightarrow> exn + 'b) \<Rightarrow> exn + 'b" where
  "try_bind (Inl e) f = Inl e"
| "try_bind (Inr x) f = f x"

text \<open>\<^verbatim>\<open>d.get(key, default)\<close>: only a dict has the method.\<close>

fun py_get :: "json \<Rightarrow> string \<Rightarrow> json \<Rightarrow> exn + json" where
  "py_get (JObj kvs) key dflt = Inr (case map_of kvs key of None \<Rightarrow> dflt | Some v \<Rightarrow> v)"
| "py_get _ key dflt = Inl (AttributeError ''object has no attribute get'')"

text \<open>\<^verbatim>\<open>d.values()\<close>, in the dict's insertion order.\<close>

fun py_values :: "json \<Rightarrow> exn + json list" where
  "py_values (JObj kvs) = Inr (map snd kvs)"
| "py_values _ = Inl (AttributeError ''object has no attribute values'')"

text \<open>
  \<^verbatim>\<open>s in c\<close> for a string \<open>s\<close>: element of a list, key of a dict, substring of a
  string; the other values are not iterable.
\<close>

fun py_in :: "string \<Rightarrow> json \<Rightarrow> exn + bool" where
  "py_in s (JList xs) = Inr (JStr s \<in> set xs)"
| "py_in s (JObj kvs) = Inr (s \<in> set (map fst kvs))"
| "py_in s (JStr t) = Inr (sublist s t)"
| "py_in s _ = Inl (TypeError ''argument is not iterable'')"

text \<open>Truth value of a Python object, as \<^verbatim>\<open>not permissions\<close> reads it.\<close>

fun py_truthy :: "json \<Rightarrow> bool" where
  "py_truthy JNull = False"
| "py_truthy (JBool b) = b"
| "py_truthy (JNum n) = (n \<noteq> 0)"
| "py_truthy (JStr s) = (s \<noteq> [])"
| "py_truthy (JList xs) = (xs \<noteq> [])"
| "py_truthy (JObj kvs) = (kvs \<noteq> [])"

fun is_list :: "json \<Rightarrow> bool" where
  "is_list (JList xs) = True"
| "is_list _ = False"

text \<open>\<^verbatim>\<open>except Exception: return False\<close>.\<close>

fun except_false :: "exn + bool \<Rightarrow> exn + bool" where
  "except_false (Inl e) = Inr False"
| "except_false (Inr b) = Inr b"

section \<open>Collaborators and adapter state\<close>

type_synonym jwk = string

text \<open>
  What the outside world answers during one call: the identity provider's public-key
  endpoint, the PEM parser, the library's token decoder (signature, format and expiry
  checks), the UMA permission endpoint, and the clock.
\<close>

record keycloak_env =
  public_key :: "exn + string"
  from_pem :: "string \<Rightarrow> exn + jwk"
  decode_token :: "string \<Rightarrow> jwk \<Rightarrow> exn + json"
  uma_permissions :: "string \<Rightarrow> string list \<Rightarrow> exn + json"
  clock :: nat

datatype net_call = PublicKeyCall | UmaPermissionsCall string "string list"

text \<open>
  The adapter's state: the key held by the cache with its expiry stamp, and the log of
  the network calls made so far.
\<close>

record adapter_state =
  key_cache :: "(jwk \<times> nat) option"
  net_log :: "net_call list"

section \<open>The public key\<close>

text \<open>The body of \<^verbatim>\<open>get_public_key\<close>: every failure becomes a \<^verbatim>\<open>ValueError\<close>.\<close>

definition get_public_key_body :: "keycloak_env \<Rightarrow> exn + jwk" where
  "get_public_key_body env =
     (case public_key env of
        Inl e \<Rightarrow> Inl (ValueError (''Failed to get public key: '' @ str_exn e))
      | Inr keys_info \<Rightarrow>
          (case from_pem env (''-----BEGIN PUBLIC KEY-----'' @ [CHR 0x0A] @ keys_info
                               @ [CHR 0x0A] @ ''-----END PUBLIC KEY-----'') of
             Inl e \<Rightarrow> Inl (ValueError (''Failed to get public key: '' @ str_exn e))
           | Inr k \<Rightarrow> Inr k))"

definition ttl_seconds :: nat where
  "ttl_seconds = 3600"

text \<open>
  Modelled from the spec: the decorator \<^verbatim>\<open>ttl_cache_decorator\<close>
  (\<^verbatim>\<open>archipy/helpers/decorators/cache.py\<close>) is not among the sources. The spec's
  refresh policy: with no key held, or with the held key's expiry (fetch time plus the
  TTL) passed, fetch synchronously and store the result with a new expiry stamp; a failed
  fetch fails the call and stores nothing.
\<close>

definition refresh_key :: "keycloak_env \<Rightarrow> adapter_state \<Rightarrow> (exn + jwk) \<times> adapter_state" where
  "refresh_key env st =
     (case get_public_key_body env of
        Inl e \<Rightarrow> (Inl e, st\<lparr>net_log := net_log st @ [PublicKeyCall]\<rparr>)
      | Inr k \<Rightarrow> (Inr k, st\<lparr>key_cache := Some (k, clock env + ttl_seconds),
                             net_log := net_log st @ [PublicKeyCall]\<rparr>))"

text \<open>
  Modelled from the spec: the cached \<^verbatim>\<open>get_public_key\<close> (the spec's \<^verbatim>\<open>get_key\<close>),
  the missing decorator applied to the body above.
\<close>

definition get_public_key :: "keycloak_env \<Rightarrow> adapter_state \<Rightarrow> (exn + jwk) \<times> adapter_state" where
  "get_public_key env st =
     (case key_cache st of
        None \<Rightarrow> refresh_key env st
      | Some (k, expiry) \<Rightarrow> if expiry < clock env then refresh_key env st else (Inr k, st))"

text \<open>
  \<^verbatim>\<open>openid_adapter.decode_token(token, key=self.get_public_key())\<close>: the key first,
  then the library's decoder; either may raise.
\<close>

definition decode_with_key :: "keycloak_env \<Rightarrow> adapter_state \<Rightarrow> string \<Rightarrow> (exn + json) \<times> adapter_state" where
  "decode_with_key env st token =
     (case get_public_key env st of
        (kr, st') \<Rightarrow> (try_bind kr (decode_token env token), st'))"

section \<open>Token operations\<close>

definition validate_token :: "keycloak_env \<Rightarrow> adapter_state \<Rightarrow> string \<Rightarrow> (exn + bool) \<times> adapter_state" where
  "validate_token env st token =
     (case decode_with_key env st token of
        (r, st') \<Rightarrow> ((case r of Inl e \<Rightarrow> Inr False | Inr token_info \<Rightarrow> Inr True), st'))"


subsection \<open>\<^verbatim>\<open>has_role\<close>\<close>

fun has_role_clients :: "string \<Rightarrow> json list \<Rightarrow> exn + bool" where
  "has_role_clients role_name [] = Inr False"
| "has_role_clients role_name (client # rest) =
     try_bind (py_get client ''roles'' (JList [])) (\<lambda>client_roles.
     try_bind (py_in role_name client_roles) (\<lambda>found.
     if found then Inr True else has_role_clients role_name rest))"

definition has_role_claims :: "json \<Rightarrow> string \<Rightarrow> exn + bool" where
  "has_role_claims token_info role_name =
     try_bind (py_get token_info ''realm_access'' (JObj [])) (\<lambda>realm_access.
     try_bind (py_get realm_access ''roles'' (JList [])) (\<lambda>roles.
     try_bind (py_in role_name roles) (\<lambda>found.
     if found then Inr True
     else
       try_bind (py_get token_info ''resource_access'' (JObj [])) (\<lambda>resource_access.
       try_bind (py_values resource_access) (\<lambda>clients.
       has_role_clients role_name clients)))))"

text \<open>The \<^verbatim>\<open>try\<close> block of \<^verbatim>\<open>has_role\<close>, and the method with its handler.\<close>

definition has_role_try :: "keycloak_env \<Rightarrow> adapter_state \<Rightarrow> string \<Rightarrow> string \<Rightarrow> (exn + bool) \<times> adapter_state" where
  "has_role_try env st token role_name =
     (case decode_with_key env st token of
        (r, st') \<Rightarrow> (try_bind r (\<lambda>token_info. has_role_claims token_info role_name), st'))"

definition has_role :: "keycloak_env \<Rightarrow> adapter_state \<Rightarrow> string \<Rightarrow> string \<Rightarrow> (exn + bool) \<times> adapter_state" where
  "has_role env st token role_name =
     (case has_role_try env st token role_name of (r, st') \<Rightarrow> (except_false r, st'))"

subsection \<open>\<^verbatim>\<open>has_any_role\<close>\<close>

text \<open>\<^verbatim>\<open>for role in role_names: if role in roles: return True\<close>.\<close>

fun any_role_in :: "string list \<Rightarrow> json \<Rightarrow> exn + bool" where
  "any_role_in [] roles = Inr False"
| "any_role_in (role # rest) roles =
     try_bind (py_in role roles) (\<lambda>found.
     if found then Inr True else any_role_in rest roles)"

fun has_any_role_clients :: "string list \<Rightarrow> json list \<Rightarrow> exn + bool" where
  "has_any_role_clients role_names [] = Inr False"
| "has_any_role_clients role_names (client # rest) =
     try_bind (py_get client ''roles'' (JList [])) (\<lambda>client_roles.
     try_bind (any_role_in role_names client_roles) (\<lambda>found.
     if found then Inr True else has_any_role_clients role_names rest))"

definition has_any_role_claims :: "json \<Rightarrow> string list \<Rightarrow> exn + bool" where
  "has_any_role_claims token_info role_names =
     try_bind (py_get token_info ''realm_access'' (JObj [])) (\<lambda>realm_access.
     try_bind (py_get realm_access ''roles'' (JList [])) (\<lambda>roles.
     try_bind (any_role_in role_names roles) (\<lambda>found.
     if found then Inr True
     else
       try_bind (py_get token_info ''resource_access'' (JObj [])) (\<lambda>resource_access.
       try_bind (py_values resource_access) (\<lambda>clients.
       has_any_role_clients role_names clients)))))"

definition has_any_role_try :: "keycloak_env \<Rightarrow> adapter_state \<Rightarrow> string \<Rightarrow> string list \<Rightarrow> (exn + bool) \<times> adapter_state" where
  "has_any_role_try env st token role_names =
     (case decode_with_key env st token of
        (r, st') \<Rightarrow> (try_bind r (\<lambda>token_info. has_any_role_claims token_info role_names), st'))"

definition has_any_role :: "keycloak_env \<Rightarrow> adapter_state \<Rightarrow> string \<Rightarrow> string list \<Rightarrow> (exn + bool) \<times> adapter_state" where
  "has_any_role env st token role_names =
     (case has_any_role_try env st token role_names of (r, st') \<Rightarrow> (except_false r, st'))"

subsection \<open>\<^verbatim>\<open>check_permissions\<close>\<close>

fun check_permissions_loop :: "string \<Rightarrow> string \<Rightarrow> json list \<Rightarrow> exn + bool" where
  "check_permissions_loop resource scope [] = Inr False"
| "check_permissions_loop resource scope (perm # rest) =
     try_bind (py_get perm ''rsname'' JNull) (\<lambda>rsname.
     if rsname = JStr resource then
       try_bind (py_get perm ''scopes'' (JList [])) (\<lambda>scopes.
       try_bind (py_in scope scopes) (\<lambda>found.
       if found then Inr True else check_permissions_loop resource scope rest))
     else check_permissions_loop resource scope rest)"

definition check_permissions_response :: "string \<Rightarrow> string \<Rightarrow> json \<Rightarrow> exn + bool" where
  "check_permissions_response resource scope permissions =
     (if \<not> py_truthy permissions \<or> \<not> is_list permissions then Inr False
      else case permissions of
             JList perms \<Rightarrow> check_permissions_loop resource scope perms
           | _ \<Rightarrow> Inr False)"

definition check_permissions_try :: "keycloak_env \<Rightarrow> adapter_state \<Rightarrow> string \<Rightarrow> string \<Rightarrow> string \<Rightarrow> (exn + bool) \<times> adapter_state" where
  "check_permissions_try env st token resource scope =
     (try_bind (uma_permissions env token [resource @ ''#'' @ scope])
               (check_permissions_response resource scope),
      st\<lparr>net_log := net_log st @ [UmaPermissionsCall token [resource @ ''#'' @ scope]]\<rparr>)"

text \<open>Both handlers of \<^verbatim>\<open>check_permissions\<close> return \<^verbatim>\<open>False\<close>.\<close>

definition check_permissions :: "keycloak_env \<Rightarrow> adapter_state \<Rightarrow> string \<Rightarrow> string \<Rightarrow> string \<Rightarrow> (exn + bool) \<times> adapter_state" where
  "check_permissions env st token resource scope =
     (case check_permissions_try env st token resource scope of
        (r, st') \<Rightarrow>
          ((case r of
              Inl (KeycloakError m) \<Rightarrow> Inr False
            | Inl e \<Rightarrow> Inr False
            | Inr b \<Rightarrow> Inr b), st'))"

section \<open>The claim structure of a well-formed token and permission list\<close>

text \<open>
  The spec's data model reads the decoded claims as realm roles (a set of strings) and
  client roles (a mapping from client id to a set of strings), at the paths the code
  visits: \<^verbatim>\<open>realm_access.roles\<close> and \<^verbatim>\<open>resource_access.<client>.roles\<close>, each
  of them optional. \<open>claims_of\<close> is that reading; it is undefined on a claim set of
  another shape.
\<close>

record decoded_claims =
  realm_roles :: "string list"
  client_roles :: "(string \<times> string list) list"







text \<open>
  The permission list of the spec's external interface: entries with a resource name
  and a list of scopes (\<^verbatim>\<open>rsname\<close> and \<^verbatim>\<open>scopes\<close> in the provider's response).
\<close>

record uma_permission =
  resource_name :: "string option"
  scopes :: "string list"




section \<open>Sample collaborators\<close>

definition sample_claims :: json where
  "sample_claims =
     JObj [(''sub'', JStr ''alice''),
           (''realm_access'', JObj [(''roles'', JList [JStr ''admin'', JStr ''user''])]),
           (''resource_access'',
              JObj [(''billing-service'', JObj [(''roles'', JList [JStr ''payer''])])])]"

definition sample_env :: keycloak_env where
  "sample_env =
     \<lparr>public_key = Inr ''MIIBIjAN'',
      from_pem = (\<lambda>pem. Inr pem),
      decode_token = (\<lambda>token key.
         if token = ''good'' then Inr sample_claims
         else Inl (OtherError ''Signature verification failed'')),
      uma_permissions = (\<lambda>token permissions.
         Inr (JList [JObj [(''rsname'', JStr ''invoices''), (''scopes'', JList [JStr ''read''])]])),
      clock = 5000\<rparr>"

definition offline_env :: keycloak_env where
  "offline_env =
     sample_env\<lparr>public_key := Inl (OtherError ''connection refused''),
                uma_permissions := (\<lambda>token permissions. Inl (KeycloakError ''503''))\<rparr>"

definition denying_env :: keycloak_env where
  "denying_env = sample_env\<lparr>uma_permissions := (\<lambda>token permissions. Inr (JList []))\<rparr>"

definition fresh_state :: adapter_state where
  "fresh_state = \<lparr>key_cache = None, net_log = []\<rparr>"

definition warm_state :: adapter_state where
  "warm_state = \<lparr>key_cache = Some (''cached-key'', 6000), net_log = []\<rparr>"


section \<open>One role name and a list of role names\<close>

lemma has_any_role_clients_single:
  "has_any_role_clients [r] clients = has_role_clients r clients"
proof (induction clients)
  case Nil
  show ?case by simp
next
  case (Cons client rest)
  show ?case
  proof (cases "py_get client ''roles'' (JList [])")
    case (Inl e)
    then show ?thesis by simp
  next
    case (Inr client_roles)
    then show ?thesis
      using Cons.IH by (cases "py_in r client_roles") auto
  qed
qed

lemma has_any_role_clients_single_fun: "has_any_role_clients [r] = has_role_clients r"
  by (rule ext) (rule has_any_role_clients_single)

lemma has_any_role_claims_single:
  "has_any_role_claims token_info [r] = has_role_claims token_info r"
proof (cases "py_get token_info ''realm_access'' (JObj [])")
  case (Inl e)
  then show ?thesis by (simp add: has_any_role_claims_def has_role_claims_def)
next
  case ra: (Inr realm_access)
  show ?thesis
  proof (cases "py_get realm_access ''roles'' (JList [])")
    case (Inl e)
    with ra show ?thesis by (simp add: has_any_role_claims_def has_role_claims_def)
  next
    case (Inr roles)
    with ra show ?thesis
      by (cases "py_in r roles")
         (auto simp: has_any_role_claims_def has_role_claims_def has_any_role_clients_single_fun)
  qed
qed

text \<open>
  C3: for every token \<open>t\<close> and every single role name \<open>r\<close>, \<^verbatim>\<open>has_any_role(t, [r])\<close>
  returns the same boolean as \<^verbatim>\<open>has_role(t, r)\<close> (and leaves the adapter in the same
  state), whatever the collaborators answer.
\<close>

theorem has_any_role_single_eq_has_role:
  "has_any_role env st token [r] = has_role env st token r"
  by (simp add: has_any_role_def has_role_def has_any_role_try_def has_role_try_def
        has_any_role_claims_single)

section \<open>The empty list of role names\<close>

lemma has_any_role_clients_empty: "has_any_role_clients [] clients \<noteq> Inr True"
proof (induction clients)
  case Nil
  show ?case by simp
next
  case (Cons client rest)
  then show ?case by (cases "py_get client ''roles'' (JList [])") auto
qed

lemma has_any_role_claims_empty: "has_any_role_claims token_info [] \<noteq> Inr True"
proof (cases "py_get token_info ''realm_access'' (JObj [])")
  case (Inl e)
  then show ?thesis by (simp add: has_any_role_claims_def)
next
  case ra: (Inr realm_access)
  show ?thesis
  proof (cases "py_get realm_access ''roles'' (JList [])")
    case (Inl e)
    with ra show ?thesis by (simp add: has_any_role_claims_def)
  next
    case ro: (Inr roles)
    show ?thesis
    proof (cases "py_get token_info ''resource_access'' (JObj [])")
      case (Inl e)
      with ra ro show ?thesis by (simp add: has_any_role_claims_def)
    next
      case rs: (Inr resource_access)
      show ?thesis
        using ra ro rs has_any_role_clients_empty
        by (cases "py_values resource_access") (auto simp: has_any_role_claims_def)
    qed
  qed
qed

lemma except_false_not_true: "r \<noteq> Inr True \<Longrightarrow> except_false r = Inr False"
  by (cases r) auto

text \<open>
  C9: for every token, also one that decodes with realm and client roles,
  \<^verbatim>\<open>has_any_role(token, [])\<close> with an empty list of role names returns \<^verbatim>\<open>False\<close>.
\<close>

theorem has_any_role_empty_list:
  "fst (has_any_role env st token []) = Inr False"
proof -
  obtain r st' where d: "decode_with_key env st token = (r, st')"
    by (cases "decode_with_key env st token")
  have "try_bind r (\<lambda>token_info. has_any_role_claims token_info []) \<noteq> Inr True"
    using has_any_role_claims_empty by (cases r) auto
  then show ?thesis
    using d by (simp add: has_any_role_def has_any_role_try_def except_false_not_true)
qed

section \<open>Validation and the handlers of the predicates\<close>

text \<open>
  C10: \<^verbatim>\<open>validate_token\<close> never raises. It returns \<^verbatim>\<open>True\<close> exactly when the public
  key is obtained and the library decodes the token against it, and \<^verbatim>\<open>False\<close> on any
  exception, a failure to obtain the key included.
\<close>

theorem validate_token_total:
  "fst (validate_token env st token) =
     Inr (\<exists>k c. fst (get_public_key env st) = Inr k \<and> decode_token env token k = Inr c)"
proof -
  obtain kr st' where g: "get_public_key env st = (kr, st')"
    by (cases "get_public_key env st")
  show ?thesis
  proof (cases kr)
    case (Inl e)
    with g show ?thesis by (simp add: validate_token_def decode_with_key_def)
  next
    case (Inr k)
    with g show ?thesis
      by (cases "decode_token env token k") (auto simp: validate_token_def decode_with_key_def)
  qed
qed

lemma except_false_total: "\<exists>b. except_false r = Inr b"
  by (cases r) auto

lemma check_permissions_handlers:
  "fst (check_permissions env st token resource scope) =
     except_false (fst (check_permissions_try env st token resource scope))"
  by (cases "fst (check_permissions_try env st token resource scope)")
     (auto simp: check_permissions_def split: prod.splits exn.splits)

lemma has_role_handler:
  "fst (has_role env st token r) = except_false (fst (has_role_try env st token r))"
  by (simp add: has_role_def split: prod.splits)

lemma has_any_role_handler:
  "fst (has_any_role env st token rs) = except_false (fst (has_any_role_try env st token rs))"
  by (simp add: has_any_role_def split: prod.splits)


lemma has_role_try_fst:
  "fst (has_role_try env st token r) =
     try_bind (fst (decode_with_key env st token)) (\<lambda>token_info. has_role_claims token_info r)"
  by (simp add: has_role_try_def split: prod.splits)

lemma has_any_role_try_fst:
  "fst (has_any_role_try env st token rs) =
     try_bind (fst (decode_with_key env st token)) (\<lambda>token_info. has_any_role_claims token_info rs)"
  by (simp add: has_any_role_try_def split: prod.splits)

lemma check_permissions_try_fst:
  "fst (check_permissions_try env st token resource scope) =
     try_bind (uma_permissions env token [resource @ ''#'' @ scope])
              (check_permissions_response resource scope)"
  by (simp add: check_permissions_try_def)

text \<open>
  C1: whatever error arises in the \<^verbatim>\<open>try\<close> block of \<^verbatim>\<open>has_role\<close>,
  \<^verbatim>\<open>has_any_role\<close> or \<^verbatim>\<open>check_permissions\<close> (the key fetch, the decoder rejecting a
  forged, malformed or expired token, the network, a malformed claim set or permission
  response), the predicate returns \<^verbatim>\<open>False\<close>; and none of the three ever raises.
\<close>

theorem authorization_predicates_fail_closed:
  "(\<forall>e. fst (has_role_try env st token r) = Inl e \<longrightarrow> fst (has_role env st token r) = Inr False)
   \<and> (\<forall>e. fst (has_any_role_try env st token rs) = Inl e
          \<longrightarrow> fst (has_any_role env st token rs) = Inr False)
   \<and> (\<forall>e. fst (check_permissions_try env st token resource scope) = Inl e
          \<longrightarrow> fst (check_permissions env st token resource scope) = Inr False)
   \<and> (\<forall>e. fst (decode_with_key env st token) = Inl e
          \<longrightarrow> fst (has_role env st token r) = Inr False
              \<and> fst (has_any_role env st token rs) = Inr False)
   \<and> (\<forall>e. uma_permissions env token [resource @ ''#'' @ scope] = Inl e
          \<longrightarrow> fst (check_permissions env st token resource scope) = Inr False)
   \<and> (\<exists>b. fst (has_role env st token r) = Inr b)
   \<and> (\<exists>b. fst (has_any_role env st token rs) = Inr b)
   \<and> (\<exists>b. fst (check_permissions env st token resource scope) = Inr b)"
  by (simp add: has_role_handler has_any_role_handler check_permissions_handlers
        has_role_try_fst has_any_role_try_fst check_permissions_try_fst except_false_total)

theorem authorization_predicates_fail_closed_witness:
  "fst (decode_with_key offline_env fresh_state ''good'') =
     Inl (ValueError ''Failed to get public key: connection refused'')
   \<and> fst (decode_with_key sample_env fresh_state ''forged'') =
     Inl (OtherError ''Signature verification failed'')
   \<and> uma_permissions offline_env ''good'' [''invoices'' @ ''#'' @ ''read''] = Inl (KeycloakError ''503'')
   \<and> fst (has_role offline_env fresh_state ''good'' ''admin'') = Inr False
   \<and> fst (has_any_role offline_env fresh_state ''good'' [''admin'']) = Inr False
   \<and> fst (has_role sample_env fresh_state ''forged'' ''admin'') = Inr False
   \<and> fst (has_any_role sample_env fresh_state ''forged'' [''admin'']) = Inr False
   \<and> fst (check_permissions offline_env fresh_state ''good'' ''invoices'' ''read'') = Inr False"
proof -
  have k: "fst (decode_with_key offline_env fresh_state ''good'') =
             Inl (ValueError ''Failed to get public key: connection refused'')"
    by (simp add: decode_with_key_def get_public_key_def refresh_key_def get_public_key_body_def
          offline_env_def sample_env_def fresh_state_def)
  have d: "fst (decode_with_key sample_env fresh_state ''forged'') =
             Inl (OtherError ''Signature verification failed'')"
    by (simp add: decode_with_key_def get_public_key_def refresh_key_def get_public_key_body_def
          sample_env_def fresh_state_def)
  have u: "uma_permissions offline_env ''good'' [''invoices'' @ ''#'' @ ''read''] = Inl (KeycloakError ''503'')"
    by (simp add: offline_env_def sample_env_def)
  show ?thesis
    using k d u
      authorization_predicates_fail_closed [of offline_env fresh_state "''good''" "''admin''"
        "[''admin'']" "''invoices''" "''read''"]
      authorization_predicates_fail_closed [of sample_env fresh_state "''forged''" "''admin''"
        "[''admin'']" "''invoices''" "''read''"]
    by simp
qed

section \<open>Decoding a token\<close>








section \<open>The key cache\<close>








section \<open>What the predicates depend on\<close>

lemma has_role_snd:
  "snd (has_role env st token r) = snd (get_public_key env st)"
  by (simp add: has_role_def has_role_try_def decode_with_key_def split: prod.splits)

lemma has_any_role_snd:
  "snd (has_any_role env st token rs) = snd (get_public_key env st)"
  by (simp add: has_any_role_def has_any_role_try_def decode_with_key_def split: prod.splits)

lemma check_permissions_snd:
  "snd (check_permissions env st token resource scope) =
     st\<lparr>net_log := net_log st @ [UmaPermissionsCall token [resource @ ''#'' @ scope]]\<rparr>"
  by (simp add: check_permissions_def check_permissions_try_def)

text \<open>
  C8, as amended: two runs of \<^verbatim>\<open>has_role\<close> or of \<^verbatim>\<open>has_any_role\<close> in which the token
  decodes to the same claims give the same boolean for the same arguments, and neither
  predicate makes a network call after the key has been obtained. \<^verbatim>\<open>check_permissions\<close>
  does not read the claims: it makes one call to the permission endpoint, and two runs in
  which that endpoint answers the same give the same boolean.
\<close>

theorem predicates_determined_by:
  "(\<forall>c. fst (decode_with_key env1 st1 token1) = Inr c \<and> fst (decode_with_key env2 st2 token2) = Inr c \<longrightarrow>
        fst (has_role env1 st1 token1 r) = fst (has_role env2 st2 token2 r)
      \<and> fst (has_any_role env1 st1 token1 rs) = fst (has_any_role env2 st2 token2 rs))
   \<and> net_log (snd (has_role env1 st1 token1 r)) = net_log (snd (get_public_key env1 st1))
   \<and> net_log (snd (has_any_role env1 st1 token1 rs)) = net_log (snd (get_public_key env1 st1))
   \<and> net_log (snd (check_permissions env1 st1 token1 resource scope)) =
       net_log st1 @ [UmaPermissionsCall token1 [resource @ ''#'' @ scope]]
   \<and> (uma_permissions env1 token1 [resource @ ''#'' @ scope] =
        uma_permissions env2 token2 [resource @ ''#'' @ scope] \<longrightarrow>
        fst (check_permissions env1 st1 token1 resource scope) =
        fst (check_permissions env2 st2 token2 resource scope))"
  by (simp add: has_role_handler has_any_role_handler check_permissions_handlers
        has_role_try_fst has_any_role_try_fst check_permissions_try_fst
        has_role_snd has_any_role_snd check_permissions_snd)

lemma sample_decode:
  "fst (decode_with_key sample_env fresh_state ''good'') = Inr sample_claims"
  by (simp add: decode_with_key_def get_public_key_def refresh_key_def get_public_key_body_def
        sample_env_def fresh_state_def)

lemma denying_decode:
  "fst (decode_with_key denying_env fresh_state ''good'') = Inr sample_claims"
  by (simp add: decode_with_key_def get_public_key_def refresh_key_def get_public_key_body_def
        denying_env_def sample_env_def fresh_state_def)

text \<open>
  C8 as stated fails for \<^verbatim>\<open>check_permissions\<close>: with the same decoded claims and the
  same arguments, the result follows the permission endpoint's answer, and the call is
  in the log.
\<close>

theorem permission_not_determined_by_claims:
  "fst (decode_with_key sample_env fresh_state ''good'') = Inr sample_claims
   \<and> fst (decode_with_key denying_env fresh_state ''good'') = Inr sample_claims
   \<and> fst (check_permissions sample_env fresh_state ''good'' ''invoices'' ''read'') = Inr True
   \<and> fst (check_permissions denying_env fresh_state ''good'' ''invoices'' ''read'') = Inr False
   \<and> net_log (snd (check_permissions sample_env fresh_state ''good'' ''invoices'' ''read'')) =
       [UmaPermissionsCall ''good'' [''invoices#read'']]"
proof -
  have granted: "fst (check_permissions sample_env fresh_state ''good'' ''invoices'' ''read'') = Inr True"
    by (simp add: check_permissions_def check_permissions_try_def check_permissions_response_def
          sample_env_def)
  have denied: "fst (check_permissions denying_env fresh_state ''good'' ''invoices'' ''read'') = Inr False"
    by (simp add: check_permissions_def check_permissions_try_def check_permissions_response_def
          denying_env_def sample_env_def)
  have logged: "net_log (snd (check_permissions sample_env fresh_state ''good'' ''invoices'' ''read'')) =
       [UmaPermissionsCall ''good'' [''invoices#read'']]"
    by (simp add: check_permissions_snd fresh_state_def)
  show ?thesis
    using sample_decode denying_decode granted denied logged by blast
qed

theorem predicates_determined_by_witness:
  "fst (decode_with_key sample_env fresh_state ''good'') = Inr sample_claims
   \<and> fst (decode_with_key denying_env fresh_state ''good'') = Inr sample_claims
   \<and> fst (has_role sample_env fresh_state ''good'' ''admin'') =
       fst (has_role denying_env fresh_state ''good'' ''admin'')
   \<and> fst (has_any_role sample_env fresh_state ''good'' [''payer'']) =
       fst (has_any_role denying_env fresh_state ''good'' [''payer''])
   \<and> uma_permissions sample_env ''good'' [''invoices'' @ ''#'' @ ''read''] =
       uma_permissions sample_env ''other'' [''invoices'' @ ''#'' @ ''read'']
   \<and> fst (check_permissions sample_env fresh_state ''good'' ''invoices'' ''read'') =
       fst (check_permissions sample_env warm_state ''other'' ''invoices'' ''read'')"
proof -
  have u: "uma_permissions sample_env ''good'' [''invoices'' @ ''#'' @ ''read''] =
       uma_permissions sample_env ''other'' [''invoices'' @ ''#'' @ ''read'']"
    by (simp add: sample_env_def)
  show ?thesis
    using sample_decode denying_decode u
      predicates_determined_by [of sample_env fresh_state "''good''" denying_env fresh_state
        "''good''" "''admin''" "[''payer'']" "''invoices''" "''read''"]
      predicates_determined_by [of sample_env fresh_state "''good''" sample_env warm_state
        "''other''" "''admin''" "[''payer'']" "''invoices''" "''read''"]
    by simp
qed

section \<open>Role membership\<close>









section \<open>Permission checks\<close>









end
